theory Spec2Isabelle
  imports Complex_Main "HOL-Library.Word"
begin

section \<open>The mesh assembler (RockMesh)\<close>

text \<open>
  RockMesh is the component of \<open>@/components/rock-model-3d\<close> that the upload page
  imports; its source is the second module in \<open>src/components/sections/examples.tsx\<close>.

  A JavaScript number that reaches the client in a JSON body is modelled as a real
  (the finite doubles are a subset; JSON has no literal for NaN, and a literal beyond
  the range of a double, which parses to an infinity, is not covered).
  A property that the code guards with a truthiness test (\<open>modelData.colors &&\<close>,
  \<open>!modelData.vertices\<close>) may be absent at run time whatever the interface
  declares, so such fields are options: \<open>None\<close> is \<open>undefined\<close>/\<open>null\<close>.
\<close>

type_synonym number = real

record Metadata =
  vertex_count :: number
  face_count :: number
  original_dimensions :: "number list"
  scale_factor :: number

record ModelData =
  vertices :: "number list list option"
  faces :: "number list list option"
  texture_coords :: "number list list option"
  colors :: "number list list option"
  metadata :: Metadata

text \<open>
  The typed arrays. A \<open>Float32Array\<close> stores each number rounded to the nearest
  value of the IEEE 754 binary32 format, ties to the even significand, and an infinity
  when the rounded magnitude reaches \<open>2^128\<close>. The unit in the last place of the
  result is \<open>2^(e - 23)\<close>, where \<open>2^e\<close> is the greatest power of two that is not
  above the magnitude, and \<open>e\<close> is at least \<open>-126\<close> (below that the values are
  subnormal and equally spaced) and at most \<open>127\<close>. \<open>binade n e a\<close> looks for that
  exponent from \<open>e\<close> downwards, \<open>n\<close> steps at most. The two zeros are not told
  apart.
\<close>

datatype float32 = Finite real | Infinity | NegInfinity

fun binade :: "nat \<Rightarrow> int \<Rightarrow> real \<Rightarrow> int" where
  "binade 0 e a = e"
| "binade (Suc n) e a = (if a < 2 powi e then binade n (e - 1) a else e)"

definition roundTiesToEven :: "real \<Rightarrow> int" where
  "roundTiesToEven y =
     (if y - of_int \<lfloor>y\<rfloor> < 1 / 2 then \<lfloor>y\<rfloor>
      else if 1 / 2 < y - of_int \<lfloor>y\<rfloor> then \<lfloor>y\<rfloor> + 1
      else if even \<lfloor>y\<rfloor> then \<lfloor>y\<rfloor> else \<lfloor>y\<rfloor> + 1)"

definition fround :: "number \<Rightarrow> float32" where
  "fround x =
     (let ulp = 2 powi (binade 253 127 \<bar>x\<bar> - 23);
          r = of_int (roundTiesToEven (x / ulp)) * ulp
      in if 2 powi 128 \<le> \<bar>r\<bar> then (if 0 < x then Infinity else NegInfinity) else Finite r)"

definition Float32Array :: "number list \<Rightarrow> float32 list" where
  "Float32Array xs = map fround xs"

text \<open>
  \<open>Uint32Array\<close> stores \<open>ToUint32\<close> of each element: truncate towards zero, then
  reduce modulo \<open>2^32\<close>.
\<close>

definition ToUint32 :: "number \<Rightarrow> 32 word" where
  "ToUint32 x = word_of_int (if x < 0 then - \<lfloor>- x\<rfloor> else \<lfloor>x\<rfloor>)"

definition Uint32Array :: "number list \<Rightarrow> 32 word list" where
  "Uint32Array xs = map ToUint32 xs"

text \<open>\<open>Array.prototype.flat()\<close> on an array of arrays of numbers (depth 1).\<close>

definition flat :: "'a list list \<Rightarrow> 'a list" where
  "flat xss = concat xss"

record 'a BufferAttribute =
  array :: "'a list"
  itemSize :: nat

text \<open>The number of items of an attribute (\<open>BufferAttribute.count\<close>): the length of
  the array divided by the item size, as a number.\<close>

definition count :: "'a BufferAttribute \<Rightarrow> number" where
  "count a = real (length (array a)) / real (itemSize a)"

record BufferGeometry =
  attributes :: "string \<rightharpoonup> float32 BufferAttribute"
  index :: "32 word BufferAttribute option"

definition newBufferGeometry :: BufferGeometry where
  "newBufferGeometry = \<lparr>attributes = Map.empty, index = None\<rparr>"

definition setAttribute :: "string \<Rightarrow> float32 BufferAttribute \<Rightarrow> BufferGeometry \<Rightarrow> BufferGeometry" where
  "setAttribute name a g = g\<lparr>attributes := (attributes g)(name \<mapsto> a)\<rparr>"

definition setIndex :: "32 word BufferAttribute \<Rightarrow> BufferGeometry \<Rightarrow> BufferGeometry" where
  "setIndex a g = g\<lparr>index := Some a\<rparr>"

text \<open>
  \<open>computeVertexNormals\<close> is code of three.js, in floating-point arithmetic: the
  function from the position and index arrays to the normals is a parameter of the
  model. Nothing below depends on what it returns.
\<close>

record three =
  vertexNormals :: "float32 list \<Rightarrow> 32 word list \<Rightarrow> float32 list"

definition computeVertexNormals :: "three \<Rightarrow> BufferGeometry \<Rightarrow> BufferGeometry" where
  "computeVertexNormals L g =
     (case attributes g ''position'' of
        None \<Rightarrow> g
      | Some p \<Rightarrow>
          setAttribute ''normal''
            \<lparr>array = vertexNormals L (array p) (case index g of None \<Rightarrow> [] | Some ix \<Rightarrow> array ix),
             itemSize = 3\<rparr> g)"

text \<open>
  The truthiness tests \<open>modelData.colors && modelData.colors.length > 0\<close> and
  \<open>modelData.texture_coords && modelData.texture_coords.length > 0\<close>.
\<close>

definition nonEmpty :: "'a list option \<Rightarrow> bool" where
  "nonEmpty xs = (case xs of None \<Rightarrow> False | Some ys \<Rightarrow> 0 < length ys)"

text \<open>
  The factory of the first \<open>useMemo\<close> of RockMesh. \<open>modelData.vertices.flat()\<close> and
  \<open>modelData.faces.flat()\<close> are not guarded: on an absent field they throw a TypeError,
  which is the result \<open>None\<close>.
\<close>

definition geometryFactory :: "three \<Rightarrow> ModelData \<Rightarrow> BufferGeometry option" where
  "geometryFactory L modelData =
     (case vertices modelData of
        None \<Rightarrow> None
      | Some vs \<Rightarrow>
          let geom = setAttribute ''position'' \<lparr>array = Float32Array (flat vs), itemSize = 3\<rparr>
                       newBufferGeometry
          in (case faces modelData of
                None \<Rightarrow> None
              | Some fs \<Rightarrow>
                  let geom = setIndex \<lparr>array = Uint32Array (flat fs), itemSize = 1\<rparr> geom;
                      geom = (if nonEmpty (colors modelData)
                              then setAttribute ''color''
                                     \<lparr>array = Float32Array (flat (the (colors modelData))),
                                      itemSize = 3\<rparr> geom
                              else geom);
                      geom = (if nonEmpty (texture_coords modelData)
                              then setAttribute ''uv''
                                     \<lparr>array = Float32Array (flat (the (texture_coords modelData))),
                                      itemSize = 2\<rparr> geom
                              else geom)
                  in Some (computeVertexNormals L geom)))"

datatype Side = FrontSide | BackSide | DoubleSide

record MeshStandardMaterial =
  vertexColors :: bool
  color :: nat
  roughness :: number
  metalness :: number
  side :: Side

text \<open>The factory of the second \<open>useMemo\<close>; it reads \<open>modelData.colors\<close> only.\<close>

definition materialFactory :: "number list list option \<Rightarrow> MeshStandardMaterial" where
  "materialFactory cs =
     \<lparr>vertexColors = nonEmpty cs,
      color = (if nonEmpty cs then 0xffffff else 0x8B7355),
      roughness = 8 / 10,
      metalness = 1 / 10,
      side = DoubleSide\<rparr>"

text \<open>
  \<open>useMemo(factory, [dep])\<close>: the hook keeps the dependency and the value of the last
  computation in a cell of the component instance, and calls the factory again only when
  the dependency has changed. React compares dependencies by identity; the payload is
  never mutated by the client, so the same object has the same contents, and comparing
  contents returns the cached value in no case where React would return another one
  with other buffer contents. A factory that throws leaves the cell as it was.
\<close>

definition useMemo :: "'v option \<Rightarrow> 'd \<Rightarrow> ('d \<times> 'v) option \<Rightarrow> 'v option \<times> ('d \<times> 'v) option" where
  "useMemo computed dep cell =
     (let recompute = (case computed of None \<Rightarrow> (None, cell) | Some v \<Rightarrow> (Some v, Some (dep, v)))
      in case cell of
           None \<Rightarrow> recompute
         | Some (d, v) \<Rightarrow> if d = dep then (Some v, cell) else recompute)"

record RockMeshHooks =
  geometryMemo :: "(ModelData \<times> BufferGeometry) option"
  materialMemo :: "(number list list option \<times> MeshStandardMaterial) option"

definition mountRockMesh :: RockMeshHooks where
  "mountRockMesh = \<lparr>geometryMemo = None, materialMemo = None\<rparr>"

record Mesh =
  geometry :: BufferGeometry
  material :: MeshStandardMaterial

text \<open>
  One render of RockMesh with the props \<open>modelData\<close>: the mesh element it returns
  (\<open>None\<close> when the render throws) and the hook cells after the render.
\<close>

definition RockMesh :: "three \<Rightarrow> ModelData \<Rightarrow> RockMeshHooks \<Rightarrow> Mesh option \<times> RockMeshHooks" where
  "RockMesh L modelData h =
     (case useMemo (geometryFactory L modelData) modelData (geometryMemo h) of
        (None, gcell) \<Rightarrow> (None, h\<lparr>geometryMemo := gcell\<rparr>)
      | (Some geom, gcell) \<Rightarrow>
          (case useMemo (Some (materialFactory (colors modelData))) (colors modelData) (materialMemo h) of
             (None, mcell) \<Rightarrow> (None, h\<lparr>geometryMemo := gcell, materialMemo := mcell\<rparr>)
           | (Some mat, mcell) \<Rightarrow>
               (Some \<lparr>geometry = geom, material = mat\<rparr>,
                h\<lparr>geometryMemo := gcell, materialMemo := mcell\<rparr>)))"

text \<open>The hook cells after a history of renders of one mounted RockMesh.\<close>

fun renders :: "three \<Rightarrow> ModelData list \<Rightarrow> RockMeshHooks \<Rightarrow> RockMeshHooks" where
  "renders L [] h = h"
| "renders L (md # mds) h = renders L mds (snd (RockMesh L md h))"

text \<open>
  The payload of the specification's data model: every vertex is a 3-tuple, every face
  is a 3-tuple of non-negative integers that an unsigned 32-bit index can hold, and
  colours, when given, are 3-tuples, one per vertex.
\<close>

definition isIndex :: "number \<Rightarrow> bool" where
  "isIndex x = (0 \<le> x \<and> x < 2 ^ 32 \<and> x = of_int \<lfloor>x\<rfloor>)"

definition triples :: "'a list list \<Rightarrow> bool" where
  "triples xss = list_all (\<lambda>xs. length xs = 3) xss"

definition triangles :: "number list list \<Rightarrow> bool" where
  "triangles fs = list_all (\<lambda>f. length f = 3 \<and> list_all isIndex f) fs"

definition triangle_payload :: ModelData where
  "triangle_payload =
     \<lparr>vertices = Some [[0, 0, 0], [1, 0, 0], [0, 1, 0]],
      faces = Some [[0, 1, 2]],
      texture_coords = None,
      colors = None,
      metadata = \<lparr>vertex_count = 3, face_count = 1, original_dimensions = [], scale_factor = 1\<rparr>\<rparr>"

text \<open>A stand-in for the library where concrete meshes are computed.\<close>

definition no_normals :: three where
  "no_normals = \<lparr>vertexNormals = (\<lambda>ps ix. [])\<rparr>"

definition colored_payload :: ModelData where
  "colored_payload = triangle_payload\<lparr>colors := Some [[1, 0, 0], [0, 1, 0], [0, 0, 1]]\<rparr>"

definition tenth_payload :: ModelData where
  "tenth_payload = triangle_payload\<lparr>vertices := Some [[1 / 10, 0, 0], [10 ^ 39, 0, 0], [0, 1, 0]]\<rparr>"

text \<open>
  The buffers of a mesh (\<open>geometry.attributes.position.array\<close> and
  \<open>geometry.index.array\<close>), and the mesh that the two factories give for a payload.
\<close>

definition positionBuffer :: "Mesh \<Rightarrow> float32 list" where
  "positionBuffer m = (case attributes (geometry m) ''position'' of None \<Rightarrow> [] | Some p \<Rightarrow> array p)"

definition indexBuffer :: "Mesh \<Rightarrow> 32 word list" where
  "indexBuffer m = (case index (geometry m) of None \<Rightarrow> [] | Some ix \<Rightarrow> array ix)"

definition assembled :: "three \<Rightarrow> ModelData \<Rightarrow> Mesh option" where
  "assembled L modelData =
     (case geometryFactory L modelData of
        None \<Rightarrow> None
      | Some geom \<Rightarrow> Some \<lparr>geometry = geom, material = materialFactory (colors modelData)\<rparr>)"

text \<open>The hook cells are consistent: a cell holds what its factory gives for the
  dependency stored with it.\<close>

definition hooks_ok :: "three \<Rightarrow> RockMeshHooks \<Rightarrow> bool" where
  "hooks_ok L h =
     ((case geometryMemo h of None \<Rightarrow> True | Some (d, g) \<Rightarrow> geometryFactory L d = Some g) \<and>
      (case materialMemo h of None \<Rightarrow> True | Some (d, m) \<Rightarrow> materialFactory d = m))"


section \<open>The upload page (app/analyze/page.tsx: UploadSection)\<close>

subsection \<open>Responses\<close>

record UploadResponse =
  success :: bool
  message :: string
  file_id :: string
  filename :: string
  size_bytes :: number
  content_type :: string
  upload_time :: string

record ProcessingInfo =
  depth_estimation :: string
  device_used :: string
  mesh_generation :: string

record Summary =
  summary_vertex_count :: number
  summary_face_count :: number
  has_texture :: bool
  has_colors :: bool
  bbox_min :: "number list"
  bbox_max :: "number list"

text \<open>
  \<open>Generate3DResponse\<close>; its first three fields are \<open>success\<close>, \<open>message\<close> and
  \<open>file_id\<close> in the source. The effect tests \<open>generate3DResult?.model_data\<close>, so the
  payload may be absent.
\<close>

record Generate3DResponse =
  success3D :: bool
  message3D :: string
  file_id3D :: string
  model_data :: "ModelData option"
  processing_info :: ProcessingInfo
  generation_time :: string
  summary :: Summary

subsection \<open>The network, as the handlers see it\<close>

text \<open>
  A value parsed from JSON, as the error branch of a handler reads it. A number is
  given by the decimal string that JavaScript prints for it (\<open>0\<close> for both zeros):
  the handlers only test such a number for truth and print it. The members of an
  object are in the order of the text; a later member with the same name wins.
\<close>

datatype json =
    JNull
  | JBool bool
  | JNumber string
  | JString string
  | JArray "json list"
  | JObject "(string \<times> json) list"

fun ToBoolean :: "json \<Rightarrow> bool" where
  "ToBoolean JNull = False"
| "ToBoolean (JBool b) = b"
| "ToBoolean (JNumber n) = (n \<noteq> ''0'')"
| "ToBoolean (JString s) = (s \<noteq> [])"
| "ToBoolean (JArray xs) = True"
| "ToBoolean (JObject members) = True"

text \<open>\<open>Array.prototype.join\<close> on strings.\<close>

fun join :: "string \<Rightarrow> string list \<Rightarrow> string" where
  "join sep [] = []"
| "join sep [x] = x"
| "join sep (x # y # ys) = x @ sep @ join sep (y # ys)"

text \<open>
  The conversion to a string that \<open>new Error(value)\<close> applies to its argument: an
  array prints its elements joined by commas, a null element as the empty string, and an
  object prints as \<open>[object Object]\<close>.
\<close>

fun ToString :: "json \<Rightarrow> string" where
  "ToString JNull = ''null''"
| "ToString (JBool b) = (if b then ''true'' else ''false'')"
| "ToString (JNumber n) = n"
| "ToString (JString s) = s"
| "ToString (JArray xs) = join '','' (map (\<lambda>x. if x = JNull then [] else ToString x) xs)"
| "ToString (JObject members) = ''[object Object]''"

text \<open>
  A thrown value is an instance of \<open>Error\<close> with its message (TypeError and SyntaxError
  included) or anything else. Reading a property of \<open>null\<close> throws a TypeError; the
  wording of its message is the engine's, here that of V8.
\<close>

datatype thrown = Error string | NonError

definition typeErrorMessage :: string where
  "typeErrorMessage = ''Cannot read properties of null (reading 'detail')''"

text \<open>
  \<open>errorData.detail\<close>: the member of an object (\<open>None\<close> is \<open>undefined\<close>, the
  object has no such member), \<open>undefined\<close> on a boolean, a number, a string or an
  array, and a TypeError on \<open>null\<close>.
\<close>

fun getDetail :: "json \<Rightarrow> thrown + json option" where
  "getDetail JNull = Inl (Error typeErrorMessage)"
| "getDetail (JObject members) = Inr (map_of (rev members) ''detail'')"
| "getDetail (JBool b) = Inr None"
| "getDetail (JNumber n) = Inr None"
| "getDetail (JString s) = Inr None"
| "getDetail (JArray xs) = Inr None"

text \<open>
  \<open>fetch\<close> rejects, or resolves to a response with a status; \<open>response.json()\<close>
  rejects (the body is not JSON), or resolves to the parsed value. The error branch
  reads that value as it is (\<open>parsed\<close>). The success branch stores it under the
  response interface without checking it: \<open>content\<close> is the value as that interface
  presents it.
\<close>

record 'r Body =
  parsed :: json
  content :: 'r

record 'r Response =
  status :: nat
  json :: "thrown + 'r Body"

datatype 'r Fetched = Rejected thrown | Resolved "'r Response"

text \<open>\<open>response.ok\<close>: the status is in the range 200 to 299.\<close>

definition ok :: "'r Response \<Rightarrow> bool" where
  "ok response = (200 \<le> status response \<and> status response \<le> 299)"

text \<open>A status code inside a template literal: its decimal digits.\<close>

function numberToString :: "nat \<Rightarrow> string" where
  "numberToString n =
     (if n < 10 then [''0123456789'' ! n]
      else numberToString (n div 10) @ [''0123456789'' ! (n mod 10)])"
  by pat_completeness auto
termination
  by (relation "measure id") auto

declare numberToString.simps [simp del]

text \<open>\<open>a || b\<close> where \<open>a\<close> is a property that was read and \<open>b\<close> a string.\<close>

definition or_else :: "json option \<Rightarrow> string \<Rightarrow> json" where
  "or_else a b = (case a of None \<Rightarrow> JString b | Some v \<Rightarrow> if ToBoolean v then v else JString b)"

text \<open>\<open>err instanceof Error ? err.message : fallback\<close>\<close>

definition errorMessage :: "thrown \<Rightarrow> string \<Rightarrow> string" where
  "errorMessage err fallback = (case err of Error m \<Rightarrow> m | NonError \<Rightarrow> fallback)"

text \<open>
  The \<open>try\<close> block of a handler after \<open>fetch\<close> has settled: what it throws (\<open>Inl\<close>)
  or the result it stores (\<open>Inr\<close>). A parsed value that is falsy (\<open>null\<close>,
  \<open>false\<close>, zero, the empty string) is stored as it is, and every test of the
  component reads it as no result: it is \<open>None\<close>. The two handlers differ in the
  prefix of the message only.
\<close>

definition settle :: "string \<Rightarrow> 'r Fetched \<Rightarrow> thrown + 'r option" where
  "settle failed fetched =
     (case fetched of
        Rejected err \<Rightarrow> Inl err
      | Resolved response \<Rightarrow>
          if \<not> ok response then
            (case json response of
               Inl err \<Rightarrow> Inl err
             | Inr errorData \<Rightarrow>
                 (case getDetail (parsed errorData) of
                    Inl err \<Rightarrow> Inl err
                  | Inr detail \<Rightarrow>
                      Inl (Error (ToString (or_else detail
                                    (failed @ '': '' @ numberToString (status response)))))))
          else
            (case json response of
               Inl err \<Rightarrow> Inl err
             | Inr result \<Rightarrow>
                 Inr (if ToBoolean (parsed result) then Some (content result) else None)))"

subsection \<open>The state of the component\<close>

record File =
  fileName :: string
  fileType :: string

record Request =
  url :: string
  http_method :: string
  headers :: "(string \<times> string) list"
  body :: "File option"

text \<open>
  The eight \<open>useState\<close> cells, the ref of the file input (\<open>None\<close>: \<open>current\<close> is
  null, the input is not mounted; \<open>Some v\<close>: the input with the value \<open>v\<close>), and what
  the validation effect keeps outside React: the pending timeouts of the window (the id
  \<open>setTimeout\<close> returned and the payload that the callback's closure holds), the next
  id, and the timer id held by the cleanup function of the last run of the effect.
\<close>

record State =
  isDragging :: bool
  isUploading :: bool
  uploadResult :: "UploadResponse option"
  error :: "string option"
  isGenerating3D :: bool
  generate3DResult :: "Generate3DResponse option"
  is3DReady :: bool
  threeDError :: "string option"
  fileInputRef :: "string option"
  timers :: "(nat \<times> ModelData) list"
  nextTimer :: nat
  cleanup :: "nat option"

definition initial :: State where
  "initial =
     \<lparr>isDragging = False, isUploading = False, uploadResult = None, error = None,
      isGenerating3D = False, generate3DResult = None, is3DReady = False, threeDError = None,
      fileInputRef = Some [], timers = [], nextTimer = 0, cleanup = None\<rparr>"

subsection \<open>The validation effect\<close>

definition clearTimeout :: "nat \<Rightarrow> State \<Rightarrow> State" where
  "clearTimeout t s = s\<lparr>timers := filter (\<lambda>(i, md). i \<noteq> t) (timers s)\<rparr>"

text \<open>The callback given to \<open>setTimeout\<close>; the thrown Error is caught in place.\<close>

definition timerCallback :: "ModelData \<Rightarrow> State \<Rightarrow> State" where
  "timerCallback modelData s =
     (if vertices modelData = None \<or> faces modelData = None
         \<or> length (the (vertices modelData)) = 0
      then s\<lparr>threeDError := Some (errorMessage (Error ''Invalid model data structure'')
                                     ''Failed to prepare 3D model'')\<rparr>
      else s\<lparr>is3DReady := True\<rparr>)"

text \<open>The body of the effect, for the result now stored.\<close>

definition effect :: "State \<Rightarrow> State" where
  "effect s =
     (case generate3DResult s of
        None \<Rightarrow> s\<lparr>cleanup := None\<rparr>
      | Some r \<Rightarrow>
          (case model_data r of
             None \<Rightarrow> s\<lparr>cleanup := None\<rparr>
           | Some modelData \<Rightarrow>
               s\<lparr>is3DReady := False, threeDError := None,
                 timers := timers s @ [(nextTimer s, modelData)],
                 nextTimer := Suc (nextTimer s),
                 cleanup := Some (nextTimer s)\<rparr>))"

text \<open>
  \<open>setGenerate3DResult\<close> followed by the commit: the dependency of the effect has
  changed, so React calls the cleanup of the previous run, then the effect. (A result
  parsed from a response is a new object each time; from null to null nothing is
  pending and the body does nothing.) The other updates of the same handler touch
  fields that the effect neither reads nor writes.
\<close>

definition setGenerate3DResult :: "Generate3DResponse option \<Rightarrow> State \<Rightarrow> State" where
  "setGenerate3DResult r s =
     (let s = s\<lparr>generate3DResult := r\<rparr>;
          s = (case cleanup s of None \<Rightarrow> s | Some t \<Rightarrow> clearTimeout t s)
      in effect s)"

text \<open>A timeout elapses: a pending timer leaves the table and its callback runs; an id
  that is not pending (cancelled, or fired before) does nothing.\<close>

definition timerFires :: "nat \<Rightarrow> State \<Rightarrow> State" where
  "timerFires t s =
     (case map_of (timers s) t of
        None \<Rightarrow> s
      | Some modelData \<Rightarrow> timerCallback modelData (clearTimeout t s))"

subsection \<open>The handlers\<close>

text \<open>
  An asynchronous handler is split where it awaits: the part that runs at once and gives
  the request it sends, and the part that runs when the request has settled, on the
  state of that moment.
\<close>

definition handleFileUpload_start :: "File \<Rightarrow> State \<Rightarrow> Request \<times> State" where
  "handleFileUpload_start file s =
     (\<lparr>url = ''http://localhost:8000/upload-image'', http_method = ''POST'', headers = [],
       body = Some file\<rparr>,
      s\<lparr>isUploading := True, error := None, uploadResult := None\<rparr>)"

definition handleFileUpload_resume :: "UploadResponse Fetched \<Rightarrow> State \<Rightarrow> State" where
  "handleFileUpload_resume fetched s =
     (let s = (case settle ''Upload failed'' fetched of
                 Inr result \<Rightarrow> s\<lparr>uploadResult := result\<rparr>
               | Inl err \<Rightarrow> s\<lparr>error := Some (errorMessage err ''Upload failed'')\<rparr>)
      in s\<lparr>isUploading := False\<rparr>)"

definition handleDragOver :: "State \<Rightarrow> State" where
  "handleDragOver s = s\<lparr>isDragging := True\<rparr>"

definition handleDragLeave :: "State \<Rightarrow> State" where
  "handleDragLeave s = s\<lparr>isDragging := False\<rparr>"

text \<open>The requests a synchronous handler sends, and the state it leaves.\<close>

definition handleDrop :: "File list \<Rightarrow> State \<Rightarrow> Request list \<times> State" where
  "handleDrop files s =
     (let s = s\<lparr>isDragging := False\<rparr>
      in if length files > 0
         then (case handleFileUpload_start (files ! 0) s of (request, s) \<Rightarrow> ([request], s))
         else ([], s))"

definition handleFileSelect :: "File list option \<Rightarrow> State \<Rightarrow> Request list \<times> State" where
  "handleFileSelect files s =
     (case files of
        None \<Rightarrow> ([], s)
      | Some fs \<Rightarrow>
          if length fs > 0
          then (case handleFileUpload_start (fs ! 0) s of (request, s) \<Rightarrow> ([request], s))
          else ([], s))"

definition handleGenerate3D_start :: "State \<Rightarrow> Request list \<times> State" where
  "handleGenerate3D_start s =
     (case uploadResult s of
        None \<Rightarrow> ([], s)
      | Some u \<Rightarrow>
          ([\<lparr>url = ''http://localhost:8000/generate-3d/'' @ file_id u, http_method = ''POST'',
             headers = [(''Content-Type'', ''application/json'')], body = None\<rparr>],
           s\<lparr>isGenerating3D := True, error := None\<rparr>))"

definition handleGenerate3D_resume :: "Generate3DResponse Fetched \<Rightarrow> State \<Rightarrow> State" where
  "handleGenerate3D_resume fetched s =
     (let s = (case settle ''3D generation failed'' fetched of
                 Inr result \<Rightarrow> setGenerate3DResult result s
               | Inl err \<Rightarrow> s\<lparr>error := Some (errorMessage err ''3D generation failed'')\<rparr>)
      in s\<lparr>isGenerating3D := False\<rparr>)"

definition resetUpload :: "State \<Rightarrow> State" where
  "resetUpload s =
     (let s = s\<lparr>uploadResult := None, error := None\<rparr>;
          s = setGenerate3DResult None s;
          s = s\<lparr>is3DReady := False, threeDError := None\<rparr>
      in case fileInputRef s of
           None \<Rightarrow> s
         | Some v \<Rightarrow> s\<lparr>fileInputRef := Some []\<rparr>)"

subsection \<open>Runs of the component\<close>

datatype Event =
    DragOver
  | DragLeave
  | Drop "File list"
  | FileSelect "File list option"
  | UploadSettled "UploadResponse Fetched"
  | StartAnalysis
  | GenerateSettled "Generate3DResponse Fetched"
  | Reset
  | TimerFires nat

text \<open>
  The file input belongs to the drop zone, which is rendered when
  \<open>!uploadResult && !error && !generate3DResult\<close> (an empty message is falsy). At
  the commit that follows an update React mounts the input, empty, if the drop zone has
  appeared, and sets the ref to null if it has gone.
\<close>

definition dropZoneShown :: "State \<Rightarrow> bool" where
  "dropZoneShown s =
     (uploadResult s = None \<and> (error s = None \<or> error s = Some []) \<and> generate3DResult s = None)"

definition commit :: "State \<Rightarrow> State" where
  "commit s =
     (if dropZoneShown s
      then (case fileInputRef s of None \<Rightarrow> s\<lparr>fileInputRef := Some []\<rparr> | Some v \<Rightarrow> s)
      else s\<lparr>fileInputRef := None\<rparr>)"

text \<open>
  Before the change event of the file input the browser has set the value of the input:
  a path that ends in the name of the first chosen file, or nothing.
\<close>

definition fakepath :: string where
  "fakepath = ''C:'' @ [CHR 0x5C] @ ''fakepath'' @ [CHR 0x5C]"

definition chooseFiles :: "File list option \<Rightarrow> State \<Rightarrow> State" where
  "chooseFiles files s =
     (case fileInputRef s of
        None \<Rightarrow> s
      | Some v \<Rightarrow>
          s\<lparr>fileInputRef :=
              Some (case files of
                      None \<Rightarrow> []
                    | Some fs \<Rightarrow> (case fs of [] \<Rightarrow> [] | f # rest \<Rightarrow> fakepath @ fileName f))\<rparr>)"

fun step :: "Event \<Rightarrow> State \<Rightarrow> State" where
  "step DragOver s = handleDragOver s"
| "step DragLeave s = handleDragLeave s"
| "step (Drop files) s = snd (handleDrop files s)"
| "step (FileSelect files) s = snd (handleFileSelect files (chooseFiles files s))"
| "step (UploadSettled fetched) s = handleFileUpload_resume fetched s"
| "step StartAnalysis s = snd (handleGenerate3D_start s)"
| "step (GenerateSettled fetched) s = handleGenerate3D_resume fetched s"
| "step Reset s = resetUpload s"
| "step (TimerFires t) s = timerFires t s"

text \<open>A run: after each event the handler's updates are committed.\<close>

fun run :: "Event list \<Rightarrow> State \<Rightarrow> State" where
  "run [] s = s"
| "run (e # es) s = run es (commit (step e s))"

text \<open>
  The state in which the component is mounted, as far as the pipeline goes: the initial
  values of the \<open>useState\<close> calls, whatever the drag highlight, the file input and
  the timers are.
\<close>

definition idle :: "State \<Rightarrow> bool" where
  "idle s =
     (\<not> isUploading s \<and> uploadResult s = None \<and> error s = None \<and> \<not> isGenerating3D s
      \<and> generate3DResult s = None \<and> \<not> is3DReady s \<and> threeDError s = None)"

text \<open>
  A run applies the handlers in any order: it is not restricted to the events that the
  rendered view offers at the moment, and the teardown of the component is not part of
  it.
\<close>

subsection \<open>Invariants of the timer table\<close>

text \<open>
  Every pending timeout is the one the current cleanup would cancel, and it validates
  the payload of the result now stored; ids are handed out once.
\<close>

definition timers_inv :: "State \<Rightarrow> bool" where
  "timers_inv s =
     (list_all (\<lambda>(t, md). cleanup s = Some t
                  \<and> map_option model_data (generate3DResult s) = Some (Some md)) (timers s)
      \<and> distinct (map fst (timers s))
      \<and> (case cleanup s of None \<Rightarrow> True | Some t \<Rightarrow> t < nextTimer s))"

definition retired :: "nat \<Rightarrow> State \<Rightarrow> bool" where
  "retired t s = (t < nextTimer s \<and> cleanup s \<noteq> Some t)"

subsection \<open>Concrete inputs\<close>

definition rock_file :: File where
  "rock_file = \<lparr>fileName = ''rock.jpg'', fileType = ''image/jpeg''\<rparr>"

definition uploaded_abc123 :: UploadResponse where
  "uploaded_abc123 =
     \<lparr>success = True, message = ''File uploaded'', file_id = ''abc123'', filename = ''rock.jpg'',
      size_bytes = 1024, content_type = ''image/jpeg'', upload_time = ''2025-01-01T00:00:00''\<rparr>"

text \<open>Of the parsed bodies of the successful responses only the first members are
  written out; the success branch reads them through \<open>content\<close>.\<close>

definition upload_ok :: "UploadResponse Fetched" where
  "upload_ok =
     Resolved \<lparr>status = 200,
               json = Inr \<lparr>parsed = JObject [(''success'', JBool True), (''file_id'', JString ''abc123'')],
                           content = uploaded_abc123\<rparr>\<rparr>"

definition generation :: "ModelData \<Rightarrow> Generate3DResponse" where
  "generation modelData =
     \<lparr>success3D = True, message3D = ''3D model generated'', file_id3D = ''abc123'',
      model_data = Some modelData,
      processing_info = \<lparr>depth_estimation = ''depth'', device_used = ''cpu'', mesh_generation = ''grid''\<rparr>,
      generation_time = ''2025-01-01T00:00:01'',
      summary = \<lparr>summary_vertex_count = 3, summary_face_count = 1, has_texture = False,
                 has_colors = False, bbox_min = [0, 0, 0], bbox_max = [1, 1, 0]\<rparr>\<rparr>"

definition generated :: "ModelData \<Rightarrow> Generate3DResponse Fetched" where
  "generated modelData =
     Resolved \<lparr>status = 200,
               json = Inr \<lparr>parsed = JObject [(''success'', JBool True), (''file_id'', JString ''abc123'')],
                           content = generation modelData\<rparr>\<rparr>"

definition no_faces_payload :: ModelData where
  "no_faces_payload = triangle_payload\<lparr>faces := Some []\<rparr>"







definition no_vertices_payload :: ModelData where
  "no_vertices_payload = triangle_payload\<lparr>vertices := Some []\<rparr>"

definition result_while_uploading :: "Event list" where
  "result_while_uploading =
     [Drop [rock_file], UploadSettled upload_ok, StartAnalysis, Reset, Drop [rock_file],
      GenerateSettled (generated triangle_payload)]"


section \<open>Properties of the mesh assembler\<close>

lemma length_concat_uniform:
  "list_all (\<lambda>xs. length xs = n) xss \<Longrightarrow> length (concat xss) = n * length xss"
  by (induction xss) simp_all

lemma nth_concat_uniform:
  "list_all (\<lambda>xs. length xs = n) xss \<Longrightarrow> i < length xss \<Longrightarrow> k < n \<Longrightarrow>
     concat xss ! (n * i + k) = xss ! i ! k"
proof (induction xss arbitrary: i)
  case Nil
  then show ?case by simp
next
  case (Cons xs xss)
  show ?case
  proof (cases i)
    case 0
    with Cons.prems show ?thesis by (simp add: nth_append)
  next
    case (Suc j)
    with Cons.prems have "concat xss ! (n * j + k) = xss ! j ! k"
      by (intro Cons.IH) simp_all
    with Suc Cons.prems show ?thesis by (simp add: nth_append add.assoc)
  qed
qed

lemma ToUint32_isIndex: "isIndex x \<Longrightarrow> real (unat (ToUint32 x)) = x"
proof -
  assume a: "isIndex x"
  then have nn: "0 \<le> \<lfloor>x\<rfloor>" and lt: "\<lfloor>x\<rfloor> < 2 ^ 32" and eq: "x = of_int \<lfloor>x\<rfloor>"
    unfolding isIndex_def by (simp_all add: floor_less_iff)
  have "uint (word_of_int \<lfloor>x\<rfloor> :: 32 word) = \<lfloor>x\<rfloor>"
    using nn lt by (simp add: uint_word_of_int)
  then have "int (unat (word_of_int \<lfloor>x\<rfloor> :: 32 word)) = \<lfloor>x\<rfloor>"
    by simp
  then have "real (unat (word_of_int \<lfloor>x\<rfloor> :: 32 word)) = of_int \<lfloor>x\<rfloor>"
    by (metis of_int_of_nat_eq)
  moreover have "ToUint32 x = word_of_int \<lfloor>x\<rfloor>"
    using a unfolding ToUint32_def isIndex_def by simp
  ultimately show ?thesis using eq by simp
qed

lemma hooks_ok_mount: "hooks_ok L mountRockMesh"
  by (simp add: hooks_ok_def mountRockMesh_def)

lemma RockMesh_assembled: "hooks_ok L h \<Longrightarrow> fst (RockMesh L md h) = assembled L md"
  by (auto simp: hooks_ok_def RockMesh_def useMemo_def assembled_def Let_def
           split: option.splits prod.splits if_splits)

lemma RockMesh_hooks_ok: "hooks_ok L h \<Longrightarrow> hooks_ok L (snd (RockMesh L md h))"
  by (auto simp: hooks_ok_def RockMesh_def useMemo_def Let_def
           split: option.splits prod.splits if_splits)

lemma renders_hooks_ok: "hooks_ok L h \<Longrightarrow> hooks_ok L (renders L mds h)"
  by (induction mds arbitrary: h) (simp_all add: RockMesh_hooks_ok)

lemma RockMesh_history: "fst (RockMesh L md (renders L mds mountRockMesh)) = assembled L md"
  by (simp add: RockMesh_assembled renders_hooks_ok hooks_ok_mount)

lemma geometryFactory_Some:
  assumes "vertices md = Some vs" "faces md = Some fs"
  shows "\<exists>g. geometryFactory L md = Some g
           \<and> attributes g ''position'' = Some \<lparr>array = map fround (concat vs), itemSize = 3\<rparr>
           \<and> index g = Some \<lparr>array = map ToUint32 (concat fs), itemSize = 1\<rparr>
           \<and> attributes g ''color'' =
               (if nonEmpty (colors md)
                then Some \<lparr>array = map fround (concat (the (colors md))), itemSize = 3\<rparr>
                else None)"
  using assms
  by (simp add: geometryFactory_def Let_def setAttribute_def setIndex_def newBufferGeometry_def
        computeVertexNormals_def Float32Array_def Uint32Array_def flat_def)

lemma assembled_buffers:
  assumes "vertices md = Some vs" "faces md = Some fs"
  shows "\<exists>m. assembled L md = Some m
           \<and> positionBuffer m = map fround (concat vs)
           \<and> indexBuffer m = map ToUint32 (concat fs)
           \<and> attributes (geometry m) ''position'' = Some \<lparr>array = map fround (concat vs), itemSize = 3\<rparr>
           \<and> index (geometry m) = Some \<lparr>array = map ToUint32 (concat fs), itemSize = 1\<rparr>
           \<and> attributes (geometry m) ''color'' =
               (if nonEmpty (colors md)
                then Some \<lparr>array = map fround (concat (the (colors md))), itemSize = 3\<rparr>
                else None)
           \<and> material m = materialFactory (colors md)"
proof -
  from geometryFactory_Some [OF assms, of L] obtain g where g: "geometryFactory L md = Some g"
    "attributes g ''position'' = Some \<lparr>array = map fround (concat vs), itemSize = 3\<rparr>"
    "index g = Some \<lparr>array = map ToUint32 (concat fs), itemSize = 1\<rparr>"
    "attributes g ''color'' =
               (if nonEmpty (colors md)
                then Some \<lparr>array = map fround (concat (the (colors md))), itemSize = 3\<rparr>
                else None)"
    by blast
  then show ?thesis
    by (simp add: assembled_def positionBuffer_def indexBuffer_def)
qed

lemma binade_found:
  "2 powi e \<le> a \<Longrightarrow> a < 2 powi (e + 1) \<Longrightarrow> e \<le> e0 \<Longrightarrow> e0 - int n \<le> e \<Longrightarrow> binade n e0 a = e"
proof (induction n arbitrary: e0)
  case 0
  then show ?case by simp
next
  case (Suc n)
  show ?case
  proof (cases "a < 2 powi e0")
    case True
    with Suc.prems(1) have "(2::real) powi e < 2 powi e0" by simp
    then have "e < e0"
      by (metis linorder_not_less power_int_increasing one_le_numeral)
    with Suc.prems True show ?thesis
      by (simp add: Suc.IH)
  next
    case False
    with Suc.prems(2) have "(2::real) powi e0 < 2 powi (e + 1)" by simp
    then have "e0 < e + 1"
      by (metis linorder_not_less power_int_increasing one_le_numeral)
    with Suc.prems False show ?thesis by simp
  qed
qed

lemma binade_floor: "a < 2 powi (e0 - int n) \<Longrightarrow> binade n e0 a = e0 - int n"
proof (induction n arbitrary: e0)
  case 0
  then show ?case by simp
next
  case (Suc n)
  have "(2::real) powi (e0 - int (Suc n)) \<le> 2 powi e0"
    by (rule power_int_increasing) simp_all
  with Suc.prems have "a < 2 powi e0" by simp
  moreover have "binade n (e0 - 1) a = e0 - 1 - int n"
    using Suc.prems by (intro Suc.IH) (simp add: algebra_simps)
  ultimately show ?case by simp
qed

lemma binade_top: "2 powi e \<le> a \<Longrightarrow> binade n e a = e"
  by (cases n) simp_all

lemma fround_0: "fround 0 = Finite 0"
proof -
  have "binade 253 127 (0::real) = 127 - int 253"
    by (rule binade_floor) simp
  then show ?thesis
    by (simp add: fround_def Let_def roundTiesToEven_def)
qed

lemma fround_1: "fround 1 = Finite 1"
proof -
  have "binade 253 127 (1::real) = 0"
    by (rule binade_found) simp_all
  then show ?thesis
    by (simp add: fround_def Let_def roundTiesToEven_def power_int_minus)
qed

lemma fround_tenth: "fround (1 / 10) = Finite (13421773 / 134217728)"
proof -
  have "binade 253 127 (1 / 10 :: real) = - 4"
    by (rule binade_found) (simp_all add: power_int_minus)
  moreover have "\<lfloor>(134217728 / 10 :: real)\<rfloor> = 13421772"
    by (simp add: floor_eq_iff)
  ultimately show ?thesis
    by (simp add: fround_def Let_def roundTiesToEven_def power_int_minus)
qed

lemma fround_huge: "fround (10 ^ 39) = Infinity"
proof -
  have "binade 253 127 (10 ^ 39 :: real) = 127"
    by (rule binade_top) simp
  moreover have "\<lfloor>(10 ^ 39 / 2 ^ 104 :: real)\<rfloor> = 49303806"
    by (simp add: floor_eq_iff)
  ultimately show ?thesis
    by (simp add: fround_def Let_def roundTiesToEven_def)
qed

text \<open>
  Claim C3, as stated, fails: a position is stored in a \<open>Float32Array\<close>, so the
  element is the vertex coordinate rounded to a 32-bit float. For the vertices
  \<open>[[0.1, 0, 0], [1e39, 0, 0], [0, 1, 0]]\<close> the element 0 is
  \<open>13421773 / 2^27\<close> (0.10000000149011612), not \<open>0.1\<close>, and the element 3 is
  \<open>Infinity\<close>, not \<open>1e39\<close>.
\<close>

theorem mesh_buffers_flatten_counterexample:
  "vertices tenth_payload = Some [[1 / 10, 0, 0], [10 ^ 39, 0, 0], [0, 1, 0]]
   \<and> faces tenth_payload = Some [[0, 1, 2]]
   \<and> map_option positionBuffer (fst (RockMesh no_normals tenth_payload mountRockMesh))
       = Some [Finite (13421773 / 134217728), Finite 0, Finite 0,
               Infinity, Finite 0, Finite 0,
               Finite 0, Finite 1, Finite 0]
   \<and> Finite (13421773 / 134217728) \<noteq> Finite (1 / 10)
   \<and> Infinity \<noteq> Finite (10 ^ 39)"
proof -
  have v: "vertices tenth_payload = Some [[1 / 10, 0, 0], [10 ^ 39, 0, 0], [0, 1, 0]]"
    and f: "faces tenth_payload = Some [[0, 1, 2]]"
    by (simp_all add: tenth_payload_def triangle_payload_def)
  have r: "map fround (concat [[1 / 10, 0, 0], [10 ^ 39, 0, 0], [0, 1, 0]])
             = [Finite (13421773 / 134217728), Finite 0, Finite 0,
                Infinity, Finite 0, Finite 0,
                Finite 0, Finite 1, Finite 0]"
    by (simp only: concat.simps append.simps list.map fround_0 fround_1 fround_tenth fround_huge)
  from assembled_buffers [OF v f, of no_normals] obtain m where
    "assembled no_normals tenth_payload = Some m"
    "positionBuffer m = map fround (concat [[1 / 10, 0, 0], [10 ^ 39, 0, 0], [0, 1, 0]])"
    by blast
  with r RockMesh_history [of no_normals tenth_payload "[]"]
  have "map_option positionBuffer (fst (RockMesh no_normals tenth_payload mountRockMesh))
       = Some [Finite (13421773 / 134217728), Finite 0, Finite 0,
               Infinity, Finite 0, Finite 0,
               Finite 0, Finite 1, Finite 0]"
    by simp
  with v f show ?thesis by simp
qed

text \<open>
  Claim C3, amended. For a payload of the data model (vertices and faces present, every
  vertex a 3-tuple, every face a 3-tuple of indices), whatever RockMesh has rendered
  before, the position buffer is the flattened vertex list in order, three numbers per
  vertex, each rounded to a 32-bit float: its element \<open>3 i + k\<close> is the rounding of
  \<open>vertices[i][k]\<close>, and is \<open>vertices[i][k]\<close> itself when that number is a 32-bit
  float. The index buffer is the flattened face list in order, with no reordering: its
  element \<open>3 j + k\<close> is \<open>faces[j][k]\<close>. For the triangle payload the mesh has 3
  positions, with the coordinates as given, and one triangle.
\<close>

theorem mesh_buffers_flatten:
  assumes "vertices md = Some vs" and "faces md = Some fs"
    and "triples vs" and "triangles fs"
  shows "(\<exists>m. fst (RockMesh L md (renders L history mountRockMesh)) = Some m
            \<and> positionBuffer m = map fround (concat vs)
            \<and> length (positionBuffer m) = 3 * length vs
            \<and> (\<forall>i<length vs. \<forall>k<3.
                  positionBuffer m ! (3 * i + k) = fround (vs ! i ! k)
                  \<and> (fround (vs ! i ! k) = Finite (vs ! i ! k) \<longrightarrow>
                       positionBuffer m ! (3 * i + k) = Finite (vs ! i ! k)))
            \<and> indexBuffer m = map ToUint32 (concat fs)
            \<and> length (indexBuffer m) = 3 * length fs
            \<and> (\<forall>j<length fs. \<forall>k<3. real (unat (indexBuffer m ! (3 * j + k))) = fs ! j ! k))
       \<and> (\<exists>m p ix. fst (RockMesh L triangle_payload mountRockMesh) = Some m
            \<and> attributes (geometry m) ''position'' = Some p \<and> count p = 3
            \<and> array p = map Finite [0, 0, 0, 1, 0, 0, 0, 1, 0]
            \<and> index (geometry m) = Some ix \<and> count ix / 3 = 1
            \<and> map unat (array ix) = [0, 1, 2])"
proof -
  from assembled_buffers [OF assms(1,2), of L] obtain m where m: "assembled L md = Some m"
    "positionBuffer m = map fround (concat vs)" "indexBuffer m = map ToUint32 (concat fs)"
    by blast
  have vs3: "list_all (\<lambda>xs. length xs = 3) vs"
    using assms(3) by (simp add: triples_def)
  have fs3: "list_all (\<lambda>xs. length xs = 3) fs"
    using assms(4) by (simp add: triangles_def list_all_iff)
  have lenp: "length (positionBuffer m) = 3 * length vs"
    by (simp add: m length_concat_uniform [OF vs3])
  have leni: "length (indexBuffer m) = 3 * length fs"
    by (simp add: m length_concat_uniform [OF fs3])
  have pos: "positionBuffer m ! (3 * i + k) = fround (vs ! i ! k)" if "i < length vs" "k < 3" for i k
  proof -
    have "3 * i + k < length (concat vs)"
      using that by (simp add: length_concat_uniform [OF vs3])
    then show ?thesis
      by (simp add: m nth_concat_uniform [OF vs3 that])
  qed
  have idx: "real (unat (indexBuffer m ! (3 * j + k))) = fs ! j ! k" if "j < length fs" "k < 3" for j k
  proof -
    have b: "3 * j + k < length (concat fs)"
      using that by (simp add: length_concat_uniform [OF fs3])
    have "fs ! j \<in> set fs" using that by simp
    then have "length (fs ! j) = 3" "list_all isIndex (fs ! j)"
      using assms(4) by (simp_all add: triangles_def list_all_iff)
    then have "isIndex (fs ! j ! k)"
      using that by (simp add: list_all_length)
    then have "real (unat (ToUint32 (fs ! j ! k))) = fs ! j ! k"
      by (rule ToUint32_isIndex)
    moreover have "indexBuffer m ! (3 * j + k) = ToUint32 (fs ! j ! k)"
      using b by (simp add: m nth_concat_uniform [OF fs3 that])
    ultimately show ?thesis
      by (simp only:)
  qed
  have general: "\<exists>m. fst (RockMesh L md (renders L history mountRockMesh)) = Some m
            \<and> positionBuffer m = map fround (concat vs)
            \<and> length (positionBuffer m) = 3 * length vs
            \<and> (\<forall>i<length vs. \<forall>k<3.
                  positionBuffer m ! (3 * i + k) = fround (vs ! i ! k)
                  \<and> (fround (vs ! i ! k) = Finite (vs ! i ! k) \<longrightarrow>
                       positionBuffer m ! (3 * i + k) = Finite (vs ! i ! k)))
            \<and> indexBuffer m = map ToUint32 (concat fs)
            \<and> length (indexBuffer m) = 3 * length fs
            \<and> (\<forall>j<length fs. \<forall>k<3. real (unat (indexBuffer m ! (3 * j + k))) = fs ! j ! k)"
    using m lenp leni pos idx by (simp add: RockMesh_history)
  have tv: "vertices triangle_payload = Some [[0, 0, 0], [1, 0, 0], [0, 1, 0]]"
    and tf: "faces triangle_payload = Some [[0, 1, 2]]"
    by (simp_all add: triangle_payload_def)
  from assembled_buffers [OF tv tf, of L] obtain t where t: "assembled L triangle_payload = Some t"
    "attributes (geometry t) ''position'' =
       Some \<lparr>array = map fround (concat [[0, 0, 0], [1, 0, 0], [0, 1, 0]]), itemSize = 3\<rparr>"
    "index (geometry t) = Some \<lparr>array = map ToUint32 (concat [[0, 1, 2]]), itemSize = 1\<rparr>"
    by blast
  have u: "map unat (map ToUint32 [0, 1, 2]) = [0, 1, 2]"
    by (simp add: ToUint32_def)
  have "fst (RockMesh L triangle_payload mountRockMesh) = Some t"
    using RockMesh_history [of L triangle_payload "[]"] t(1) by simp
  then have example: "\<exists>m p ix. fst (RockMesh L triangle_payload mountRockMesh) = Some m
            \<and> attributes (geometry m) ''position'' = Some p \<and> count p = 3
            \<and> array p = map Finite [0, 0, 0, 1, 0, 0, 0, 1, 0]
            \<and> index (geometry m) = Some ix \<and> count ix / 3 = 1
            \<and> map unat (array ix) = [0, 1, 2]"
    using t(2,3) u by (simp add: count_def fround_0 fround_1)
  from general example show ?thesis by blast
qed

theorem mesh_buffers_flatten_witness:
  "vertices colored_payload = Some [[0, 0, 0], [1, 0, 0], [0, 1, 0]]
   \<and> faces colored_payload = Some [[0, 1, 2]]
   \<and> triples [[0, 0, 0], [1, 0, 0], [0, 1, 0 :: number]]
   \<and> triangles [[0, 1, 2]]
   \<and> map_option positionBuffer (fst (RockMesh no_normals colored_payload mountRockMesh))
       = Some (map Finite [0, 0, 0, 1, 0, 0, 0, 1, 0])
   \<and> map_option (\<lambda>m. map unat (indexBuffer m)) (fst (RockMesh no_normals colored_payload mountRockMesh))
       = Some [0, 1, 2]"
proof -
  have v: "vertices colored_payload = Some [[0, 0, 0], [1, 0, 0], [0, 1, 0]]"
    and f: "faces colored_payload = Some [[0, 1, 2]]"
    by (simp_all add: colored_payload_def triangle_payload_def)
  have t: "triples [[0, 0, 0], [1, 0, 0], [0, 1, 0 :: number]]"
    by (simp add: triples_def)
  have i: "triangles [[0, 1, 2]]"
    by (simp add: triangles_def isIndex_def)
  have u: "map unat (map ToUint32 [0, 1, 2]) = [0, 1, 2]"
    by (simp add: ToUint32_def)
  from mesh_buffers_flatten [OF v f t i, of no_normals "[]"] v f t i u show ?thesis
    by (auto simp: fround_0 fround_1)
qed

text \<open>
  Claim C4. When \<open>colors\<close> is omitted or empty, the material has the fallback colour
  \<open>0x8B7355\<close>, vertex colours are off and the geometry has no \<open>color\<close> attribute;
  when \<open>colors\<close> is present and non-empty (3-tuples, one per vertex, as the data model
  has them), vertex colours are on and a colour buffer of length three times the number of
  vertices is attached.
\<close>

theorem mesh_colors:
  assumes "vertices md = Some vs" and "faces md = Some fs"
  shows "\<exists>m. fst (RockMesh L md (renders L history mountRockMesh)) = Some m
           \<and> (colors md = None \<or> colors md = Some [] \<longrightarrow>
                 color (material m) = 0x8B7355 \<and> \<not> vertexColors (material m)
                 \<and> attributes (geometry m) ''color'' = None)
           \<and> (\<forall>cs. colors md = Some cs \<and> cs \<noteq> [] \<and> triples cs \<and> length cs = length vs \<longrightarrow>
                 vertexColors (material m)
                 \<and> (\<exists>c. attributes (geometry m) ''color'' = Some c \<and> itemSize c = 3
                        \<and> array c = map fround (concat cs)
                        \<and> length (array c) = 3 * length vs))"
proof -
  from assembled_buffers [OF assms, of L] obtain m where m: "assembled L md = Some m"
    "attributes (geometry m) ''color'' =
       (if nonEmpty (colors md)
        then Some \<lparr>array = map fround (concat (the (colors md))), itemSize = 3\<rparr>
        else None)"
    "material m = materialFactory (colors md)"
    by blast
  have none: "color (material m) = 0x8B7355 \<and> \<not> vertexColors (material m)
                 \<and> attributes (geometry m) ''color'' = None"
    if "colors md = None \<or> colors md = Some []"
    using that m(2,3) by (auto simp: nonEmpty_def materialFactory_def)
  have some: "vertexColors (material m)
                 \<and> (\<exists>c. attributes (geometry m) ''color'' = Some c \<and> itemSize c = 3
                        \<and> array c = map fround (concat cs)
                        \<and> length (array c) = 3 * length vs)"
    if "colors md = Some cs" "cs \<noteq> []" "triples cs" "length cs = length vs" for cs
  proof -
    have "list_all (\<lambda>xs. length xs = 3) cs"
      using that(3) by (simp add: triples_def)
    then have "length (concat cs) = 3 * length vs"
      using that(4) by (simp add: length_concat_uniform)
    then show ?thesis
      using that(1,2) m(2,3) by (simp add: nonEmpty_def materialFactory_def)
  qed
  from m(1) none some show ?thesis
    by (simp add: RockMesh_history)
qed

theorem mesh_colors_witness:
  "vertices triangle_payload = Some [[0, 0, 0], [1, 0, 0], [0, 1, 0]]
   \<and> faces triangle_payload = Some [[0, 1, 2]]
   \<and> colors triangle_payload = None
   \<and> map_option (\<lambda>m. (color (material m), vertexColors (material m), attributes (geometry m) ''color''))
        (fst (RockMesh no_normals triangle_payload mountRockMesh)) = Some (0x8B7355, False, None)
   \<and> vertices colored_payload = Some [[0, 0, 0], [1, 0, 0], [0, 1, 0]]
   \<and> faces colored_payload = Some [[0, 1, 2]]
   \<and> colors colored_payload = Some [[1, 0, 0], [0, 1, 0], [0, 0, 1]]
   \<and> triples [[1, 0, 0], [0, 1, 0], [0, 0, 1 :: number]]
   \<and> map_option (\<lambda>m. (vertexColors (material m), map_option (\<lambda>c. length (array c)) (attributes (geometry m) ''color'')))
        (fst (RockMesh no_normals colored_payload mountRockMesh)) = Some (True, Some 9)"
proof -
  have v: "vertices triangle_payload = Some [[0, 0, 0], [1, 0, 0], [0, 1, 0]]"
    and f: "faces triangle_payload = Some [[0, 1, 2]]"
    and c: "colors triangle_payload = None"
    by (simp_all add: triangle_payload_def)
  have v': "vertices colored_payload = Some [[0, 0, 0], [1, 0, 0], [0, 1, 0]]"
    and f': "faces colored_payload = Some [[0, 1, 2]]"
    and c': "colors colored_payload = Some [[1, 0, 0], [0, 1, 0], [0, 0, 1]]"
    by (simp_all add: colored_payload_def triangle_payload_def)
  have t: "triples [[1, 0, 0], [0, 1, 0], [0, 0, 1 :: number]]"
    by (simp add: triples_def)
  from mesh_colors [OF v f, of no_normals "[]"] c
  have a: "map_option (\<lambda>m. (color (material m), vertexColors (material m), attributes (geometry m) ''color''))
        (fst (RockMesh no_normals triangle_payload mountRockMesh)) = Some (0x8B7355, False, None)"
    by auto
  from mesh_colors [OF v' f', of no_normals "[]"] c' t
  have b: "map_option (\<lambda>m. (vertexColors (material m), map_option (\<lambda>c. length (array c)) (attributes (geometry m) ''color'')))
        (fst (RockMesh no_normals colored_payload mountRockMesh)) = Some (True, Some 9)"
    by auto
  from v f c a v' f' c' t b show ?thesis
    by simp
qed

text \<open>
  Claim C5. For a payload with vertices and faces, a render of RockMesh returns a mesh
  whose position buffer is the flattened vertex list (each number rounded to a 32-bit
  float) and whose index buffer is the flattened face list, whatever the component has
  rendered before: the \<open>useMemo\<close> cells are the only state RockMesh keeps, and they
  do not change the result. A second render with the same payload, right after the
  first or in another instance of the component with another history, returns the same
  mesh: position and index buffers of the same length with the same elements in the
  same order. For any payload, the result does not depend on the history.
\<close>

theorem assembler_deterministic:
  "fst (RockMesh L md (renders L h1 mountRockMesh)) = fst (RockMesh L md (renders L h2 mountRockMesh))
   \<and> (vertices md = Some vs \<and> faces md = Some fs \<longrightarrow>
        (\<exists>m. fst (RockMesh L md (renders L h1 mountRockMesh)) = Some m
            \<and> fst (RockMesh L md (snd (RockMesh L md (renders L h1 mountRockMesh)))) = Some m
            \<and> fst (RockMesh L md (renders L h2 mountRockMesh)) = Some m
            \<and> positionBuffer m = map fround (concat vs)
            \<and> length (positionBuffer m) = length (concat vs)
            \<and> indexBuffer m = map ToUint32 (concat fs)
            \<and> length (indexBuffer m) = length (concat fs)))"
proof -
  have again: "fst (RockMesh L md (snd (RockMesh L md (renders L h1 mountRockMesh)))) = assembled L md"
  proof -
    have "hooks_ok L (snd (RockMesh L md (renders L h1 mountRockMesh)))"
      by (simp add: RockMesh_hooks_ok renders_hooks_ok hooks_ok_mount)
    then show ?thesis by (rule RockMesh_assembled)
  qed
  have productive: "\<exists>m. fst (RockMesh L md (renders L h1 mountRockMesh)) = Some m
            \<and> fst (RockMesh L md (snd (RockMesh L md (renders L h1 mountRockMesh)))) = Some m
            \<and> fst (RockMesh L md (renders L h2 mountRockMesh)) = Some m
            \<and> positionBuffer m = map fround (concat vs)
            \<and> length (positionBuffer m) = length (concat vs)
            \<and> indexBuffer m = map ToUint32 (concat fs)
            \<and> length (indexBuffer m) = length (concat fs)"
    if "vertices md = Some vs" "faces md = Some fs"
  proof -
    from assembled_buffers [OF that, of L] obtain m where "assembled L md = Some m"
      "positionBuffer m = map fround (concat vs)" "indexBuffer m = map ToUint32 (concat fs)"
      by blast
    then show ?thesis
      by (simp add: RockMesh_history again)
  qed
  then show ?thesis
    by (simp add: RockMesh_history)
qed

theorem assembler_deterministic_witness:
  "vertices triangle_payload = Some [[0, 0, 0], [1, 0, 0], [0, 1, 0]]
   \<and> faces triangle_payload = Some [[0, 1, 2]]
   \<and> map_option positionBuffer
       (fst (RockMesh no_normals triangle_payload (renders no_normals [tenth_payload] mountRockMesh)))
      = Some (map Finite [0, 0, 0, 1, 0, 0, 0, 1, 0])
   \<and> map_option positionBuffer
       (fst (RockMesh no_normals triangle_payload
          (snd (RockMesh no_normals triangle_payload (renders no_normals [tenth_payload] mountRockMesh)))))
      = Some (map Finite [0, 0, 0, 1, 0, 0, 0, 1, 0])
   \<and> map_option (\<lambda>m. map unat (indexBuffer m))
       (fst (RockMesh no_normals triangle_payload
          (snd (RockMesh no_normals triangle_payload (renders no_normals [tenth_payload] mountRockMesh)))))
      = Some [0, 1, 2]"
proof -
  have v: "vertices triangle_payload = Some [[0, 0, 0], [1, 0, 0], [0, 1, 0]]"
    and f: "faces triangle_payload = Some [[0, 1, 2]]"
    by (simp_all add: triangle_payload_def)
  have u: "map unat (map ToUint32 [0, 1, 2]) = [0, 1, 2]"
    by (simp add: ToUint32_def)
  from assembler_deterministic [of no_normals triangle_payload "[tenth_payload]" "[]"
      "[[0, 0, 0], [1, 0, 0], [0, 1, 0]]" "[[0, 1, 2]]"] v f u
  show ?thesis
    by (auto simp: fround_0 fround_1)
qed

section \<open>Properties of the upload page\<close>

lemmas handlers =
  handleFileUpload_start_def handleFileUpload_resume_def handleDragOver_def handleDragLeave_def
  handleDrop_def handleFileSelect_def handleGenerate3D_start_def handleGenerate3D_resume_def
  resetUpload_def setGenerate3DResult_def effect_def clearTimeout_def timerFires_def
  timerCallback_def settle_def ok_def errorMessage_def or_else_def
  commit_def dropZoneShown_def chooseFiles_def

lemmas inputs =
  rock_file_def uploaded_abc123_def upload_ok_def generation_def generated_def
  triangle_payload_def initial_def

lemma timers_inv_initial: "timers_inv initial"
  by (simp add: timers_inv_def initial_def)

lemma timers_inv_cleared:
  assumes "timers_inv s"
  shows "(case cleanup s of None \<Rightarrow> timers s | Some t \<Rightarrow> filter (\<lambda>(i, md). i \<noteq> t) (timers s)) = []"
proof -
  from assms have all: "\<forall>x\<in>set (timers s). cleanup s = Some (fst x)"
    by (auto simp: timers_inv_def list_all_iff)
  show ?thesis
  proof (cases "cleanup s")
    case None
    with all have "timers s = []" by (cases "timers s") auto
    with None show ?thesis by simp
  next
    case (Some t)
    with all have "\<forall>x\<in>set (timers s). fst x = t" by auto
    then have "filter (\<lambda>(i, md). i \<noteq> t) (timers s) = []"
      by (auto simp: filter_empty_conv)
    with Some show ?thesis by simp
  qed
qed

lemma setGenerate3DResult_timers:
  assumes "timers_inv s"
  shows "setGenerate3DResult r s = effect (s\<lparr>generate3DResult := r, timers := []\<rparr>)"
proof (cases "cleanup s")
  case None
  with timers_inv_cleared [OF assms] have "timers s = []" by simp
  then have "s\<lparr>generate3DResult := r, timers := []\<rparr> = s\<lparr>generate3DResult := r\<rparr>" by simp
  with None show ?thesis
    by (simp add: setGenerate3DResult_def Let_def)
next
  case (Some t)
  with timers_inv_cleared [OF assms] have "filter (\<lambda>(i, md). i \<noteq> t) (timers s) = []" by simp
  with Some show ?thesis
    by (simp add: setGenerate3DResult_def Let_def clearTimeout_def)
qed

lemma timers_inv_setGenerate3DResult:
  assumes "timers_inv s"
  shows "timers_inv (setGenerate3DResult r s)"
  using assms unfolding setGenerate3DResult_timers [OF assms]
  by (auto simp: timers_inv_def effect_def split: option.splits)

lemma timers_inv_filter:
  "timers_inv s \<Longrightarrow> timers_inv (s\<lparr>timers := filter P (timers s)\<rparr>)"
  by (auto simp: timers_inv_def list_all_iff distinct_map_filter split: option.splits)

lemma timers_inv_frame:
  "timers_inv s \<Longrightarrow> timers s' = timers s \<Longrightarrow> cleanup s' = cleanup s \<Longrightarrow> nextTimer s' = nextTimer s
     \<Longrightarrow> generate3DResult s' = generate3DResult s \<Longrightarrow> timers_inv s'"
  by (simp add: timers_inv_def split: option.splits)

lemma timers_inv_timerFires: "timers_inv s \<Longrightarrow> timers_inv (timerFires t s)"
proof -
  assume a: "timers_inv s"
  have b: "timers_inv (clearTimeout t s)"
    unfolding clearTimeout_def using a by (rule timers_inv_filter)
  have "timers_inv (timerCallback md (clearTimeout t s))" for md
    by (rule timers_inv_frame [OF b]) (simp_all add: timerCallback_def)
  with a show ?thesis
    by (simp add: timerFires_def split: option.splits)
qed

lemma timers_inv_resume3D: "timers_inv s \<Longrightarrow> timers_inv (handleGenerate3D_resume fetched s)"
proof -
  assume a: "timers_inv s"
  show ?thesis
  proof (cases "settle ''3D generation failed'' fetched")
    case (Inl err)
    with a show ?thesis
      by (auto simp: handleGenerate3D_resume_def elim!: timers_inv_frame)
  next
    case (Inr result)
    have "timers_inv (setGenerate3DResult result s)"
      using a by (rule timers_inv_setGenerate3DResult)
    then have "timers_inv (setGenerate3DResult result s\<lparr>isGenerating3D := False\<rparr>)"
      by (rule timers_inv_frame) simp_all
    with Inr show ?thesis
      by (simp add: handleGenerate3D_resume_def)
  qed
qed

lemma timers_inv_resetUpload: "timers_inv s \<Longrightarrow> timers_inv (resetUpload s)"
proof -
  assume a: "timers_inv s"
  then have "timers_inv (s\<lparr>uploadResult := None, error := None\<rparr>)"
    by (rule timers_inv_frame) simp_all
  then have "timers_inv (setGenerate3DResult None (s\<lparr>uploadResult := None, error := None\<rparr>))"
    by (rule timers_inv_setGenerate3DResult)
  then show ?thesis
    by (auto simp: resetUpload_def Let_def split: option.splits elim!: timers_inv_frame)
qed

lemma timers_inv_step: "timers_inv s \<Longrightarrow> timers_inv (step e s)"
proof (cases e)
  case (GenerateSettled fetched)
  assume "timers_inv s"
  with GenerateSettled show ?thesis by (simp add: timers_inv_resume3D)
next
  case Reset
  assume "timers_inv s"
  with Reset show ?thesis by (simp add: timers_inv_resetUpload)
next
  case (TimerFires t)
  assume "timers_inv s"
  with TimerFires show ?thesis by (simp add: timers_inv_timerFires)
qed (auto simp: handleDragOver_def handleDragLeave_def handleDrop_def handleFileSelect_def
       handleFileUpload_start_def handleFileUpload_resume_def handleGenerate3D_start_def
       chooseFiles_def Let_def
       split: option.splits sum.splits elim!: timers_inv_frame)

lemma timers_inv_commit: "timers_inv s \<Longrightarrow> timers_inv (commit s)"
  by (auto simp: commit_def split: option.splits elim!: timers_inv_frame)

lemma timers_inv_run: "timers_inv s \<Longrightarrow> timers_inv (run es s)"
  by (induction es arbitrary: s) (simp_all add: timers_inv_step timers_inv_commit)

lemma retired_setGenerate3DResult: "t < nextTimer s \<Longrightarrow> retired t (setGenerate3DResult r s)"
  by (auto simp: retired_def setGenerate3DResult_def effect_def clearTimeout_def Let_def
           split: option.splits)

lemma retired_step: "retired t s \<Longrightarrow> retired t (step e s)"
proof (cases e)
  case (GenerateSettled fetched)
  assume a: "retired t s"
  show ?thesis
  proof (cases "settle ''3D generation failed'' fetched")
    case (Inl err)
    with a GenerateSettled show ?thesis
      by (simp add: handleGenerate3D_resume_def retired_def)
  next
    case (Inr result)
    from a have "t < nextTimer s"
      by (simp add: retired_def)
    then have "retired t (setGenerate3DResult result s)"
      by (rule retired_setGenerate3DResult)
    with Inr GenerateSettled show ?thesis
      by (simp add: handleGenerate3D_resume_def retired_def)
  qed
next
  case Reset
  assume a: "retired t s"
  then have "t < nextTimer (s\<lparr>uploadResult := None, error := None\<rparr>)"
    by (simp add: retired_def)
  then have "retired t (setGenerate3DResult None (s\<lparr>uploadResult := None, error := None\<rparr>))"
    by (rule retired_setGenerate3DResult)
  with Reset show ?thesis
    by (auto simp: resetUpload_def Let_def retired_def split: option.splits)
qed (auto simp: retired_def handleDragOver_def handleDragLeave_def handleDrop_def handleFileSelect_def
       handleFileUpload_start_def handleFileUpload_resume_def handleGenerate3D_start_def
       timerFires_def timerCallback_def clearTimeout_def chooseFiles_def Let_def
       split: option.splits sum.splits)

lemma retired_commit: "retired t s \<Longrightarrow> retired t (commit s)"
  by (auto simp: retired_def commit_def split: option.splits)

lemma retired_run: "retired t s \<Longrightarrow> retired t (run es s)"
  by (induction es arbitrary: s) (simp_all add: retired_step retired_commit)

lemma nextTimer_step: "nextTimer s \<le> nextTimer (step e s)"
  by (cases e)
     (auto simp: handleDragOver_def handleDragLeave_def handleDrop_def handleFileSelect_def
        handleFileUpload_start_def handleFileUpload_resume_def handleGenerate3D_start_def
        handleGenerate3D_resume_def resetUpload_def setGenerate3DResult_def effect_def
        timerFires_def timerCallback_def clearTimeout_def chooseFiles_def Let_def
        split: option.splits sum.splits)

lemma nextTimer_commit: "nextTimer (commit s) = nextTimer s"
  by (simp add: commit_def split: option.splits)

lemma nextTimer_run: "nextTimer s \<le> nextTimer (run es s)"
proof (induction es arbitrary: s)
  case Nil
  show ?case by simp
next
  case (Cons e es)
  have "nextTimer s \<le> nextTimer (step e s)" by (rule nextTimer_step)
  also have "\<dots> = nextTimer (commit (step e s))" by (simp add: nextTimer_commit)
  also have "\<dots> \<le> nextTimer (run es (commit (step e s)))" by (rule Cons.IH)
  finally show ?case by simp
qed

lemma retired_not_pending: "timers_inv s \<Longrightarrow> retired t s \<Longrightarrow> t \<notin> fst ` set (timers s)"
  by (auto simp: timers_inv_def retired_def list_all_iff)

lemma timerFires_not_pending: "t \<notin> fst ` set (timers s) \<Longrightarrow> timerFires t s = s"
proof -
  assume "t \<notin> fst ` set (timers s)"
  then have "map_of (timers s) t = None"
    by (simp add: map_of_eq_None_iff)
  then show ?thesis
    by (simp add: timerFires_def)
qed

lemma pending_after_store:
  assumes "timers_inv s" and "model_data r = Some md"
  shows "timers (setGenerate3DResult (Some r) s) = [(nextTimer s, md)]"
    and "nextTimer (setGenerate3DResult (Some r) s) = Suc (nextTimer s)"
  using assms(2) unfolding setGenerate3DResult_timers [OF assms(1)]
  by (simp_all add: effect_def)

text \<open>
  Claim C1. The pipeline should reach the ready state only for a payload with non-empty
  \<open>vertices\<close> and non-empty \<open>faces\<close>. The check in the timer callback tests
  \<open>vertices\<close> for absence and emptiness but \<open>faces\<close> for absence only: for a
  generation result with three vertices and an empty list of faces, the run upload,
  start analysis, result, validation delay ends ready, with no error.
\<close>

theorem validation_accepts_empty_faces:
  "vertices no_faces_payload = Some [[0, 0, 0], [1, 0, 0], [0, 1, 0]]
   \<and> faces no_faces_payload = Some []
   \<and> is3DReady (run [Drop [rock_file], UploadSettled upload_ok, StartAnalysis,
                      GenerateSettled (generated no_faces_payload), TimerFires 0] initial)
   \<and> threeDError (run [Drop [rock_file], UploadSettled upload_ok, StartAnalysis,
                      GenerateSettled (generated no_faces_payload), TimerFires 0] initial) = None"
  by (simp add: handlers inputs no_faces_payload_def)

text \<open>
  What the validation does decide, for any stored result that has a payload: ready if and
  only if \<open>vertices\<close> is present and non-empty and \<open>faces\<close> is present; otherwise the
  error \<open>Invalid model data structure\<close>.
\<close>

lemma validation_outcome:
  assumes "timers_inv s" and "model_data r = Some md"
  shows "is3DReady (timerFires (nextTimer s) (setGenerate3DResult (Some r) s))
           = (vertices md \<noteq> None \<and> faces md \<noteq> None \<and> vertices md \<noteq> Some [])"
    and "threeDError (timerFires (nextTimer s) (setGenerate3DResult (Some r) s))
           = (if vertices md \<noteq> None \<and> faces md \<noteq> None \<and> vertices md \<noteq> Some [] then None
              else Some ''Invalid model data structure'')"
  using assms(2) unfolding setGenerate3DResult_timers [OF assms(1)]
  by (auto simp: effect_def timerFires_def timerCallback_def clearTimeout_def errorMessage_def)




text \<open>
  Claim C6, as stated, fails: reset does not touch the in-progress flags. Upload, start
  the analysis, reset while the generation is in flight, drop a file again, and let the
  generation result arrive: the view of the result is shown while the second upload is
  in flight. Reset from that state leaves \<open>isUploading\<close> true, so the component is
  uploading, not idle.
\<close>

theorem reset_counterexample:
  "generate3DResult (run result_while_uploading initial) = Some (generation triangle_payload)
   \<and> isUploading (run result_while_uploading initial)
   \<and> isUploading (resetUpload (run result_while_uploading initial))
   \<and> \<not> idle (resetUpload (run result_while_uploading initial))"
  by (simp add: result_while_uploading_def handlers inputs idle_def)

text \<open>
  Claim C6, amended. From any state, reset empties the upload result, the generation
  result, the 3D-ready flag and both error messages, cancels the pending validation
  timer, and empties the value of the file input if the input is mounted; after the
  commit that follows, the input is mounted with an empty value in every case. Reset
  leaves \<open>isUploading\<close> and \<open>isGenerating3D\<close> as they were, so the state after reset is
  the idle state exactly when both flags were false before it.
\<close>

theorem reset_clears_results:
  "uploadResult (resetUpload s) = None
   \<and> generate3DResult (resetUpload s) = None
   \<and> \<not> is3DReady (resetUpload s)
   \<and> error (resetUpload s) = None
   \<and> threeDError (resetUpload s) = None
   \<and> fileInputRef (resetUpload s) = map_option (\<lambda>v. []) (fileInputRef s)
   \<and> fileInputRef (commit (resetUpload s)) = Some []
   \<and> timers (resetUpload s) = (case cleanup s of None \<Rightarrow> timers s | Some t \<Rightarrow> filter (\<lambda>(i, md). i \<noteq> t) (timers s))
   \<and> isUploading (resetUpload s) = isUploading s
   \<and> isGenerating3D (resetUpload s) = isGenerating3D s
   \<and> idle (resetUpload s) = (\<not> isUploading s \<and> \<not> isGenerating3D s)
   \<and> idle (commit (resetUpload s)) = (\<not> isUploading s \<and> \<not> isGenerating3D s)"
  by (auto simp: handlers idle_def Let_def split: option.splits)

theorem reset_clears_results_witness:
  "idle (resetUpload (run [Drop [rock_file], UploadSettled upload_ok, StartAnalysis,
                           GenerateSettled (generated triangle_payload), TimerFires 0] initial))
   \<and> is3DReady (run [Drop [rock_file], UploadSettled upload_ok, StartAnalysis,
                     GenerateSettled (generated triangle_payload), TimerFires 0] initial)
   \<and> fileInputRef (run [Drop [rock_file], UploadSettled upload_ok, StartAnalysis,
                     GenerateSettled (generated triangle_payload), TimerFires 0] initial) = None
   \<and> fileInputRef (run [Drop [rock_file], UploadSettled upload_ok, StartAnalysis,
                     GenerateSettled (generated triangle_payload), TimerFires 0, Reset] initial) = Some []
   \<and> fileInputRef (run [FileSelect (Some [rock_file])] initial) = Some (fakepath @ ''rock.jpg'')
   \<and> fileInputRef (resetUpload (run [FileSelect (Some [rock_file])] initial)) = Some []"
proof -
  have "\<not> isUploading (run [Drop [rock_file], UploadSettled upload_ok, StartAnalysis,
                           GenerateSettled (generated triangle_payload), TimerFires 0] initial)"
    and "\<not> isGenerating3D (run [Drop [rock_file], UploadSettled upload_ok, StartAnalysis,
                           GenerateSettled (generated triangle_payload), TimerFires 0] initial)"
    and "is3DReady (run [Drop [rock_file], UploadSettled upload_ok, StartAnalysis,
                     GenerateSettled (generated triangle_payload), TimerFires 0] initial)"
    and "fileInputRef (run [Drop [rock_file], UploadSettled upload_ok, StartAnalysis,
                     GenerateSettled (generated triangle_payload), TimerFires 0] initial) = None"
    and "run [Drop [rock_file], UploadSettled upload_ok, StartAnalysis,
                     GenerateSettled (generated triangle_payload), TimerFires 0, Reset] initial
         = commit (resetUpload (run [Drop [rock_file], UploadSettled upload_ok, StartAnalysis,
                     GenerateSettled (generated triangle_payload), TimerFires 0] initial))"
    and "fileInputRef (run [FileSelect (Some [rock_file])] initial) = Some (fakepath @ ''rock.jpg'')"
    by (simp_all add: handlers inputs)
  with reset_clears_results [of "run [Drop [rock_file], UploadSettled upload_ok, StartAnalysis,
                           GenerateSettled (generated triangle_payload), TimerFires 0] initial"]
    reset_clears_results [of "run [FileSelect (Some [rock_file])] initial"]
  show ?thesis by simp
qed

text \<open>
  Claim C7. A drop that carries at least one file sends exactly one request, the upload of
  the first file of the drop; a drop that carries no file sends none and only clears the
  drag highlight.
\<close>

theorem drop_uploads_first_file:
  "fst (handleDrop (file # others) s)
     = [\<lparr>url = ''http://localhost:8000/upload-image'', http_method = ''POST'', headers = [],
         body = Some file\<rparr>]
   \<and> snd (handleDrop (file # others) s)
       = s\<lparr>isDragging := False, isUploading := True, error := None, uploadResult := None\<rparr>
   \<and> fst (handleDrop [] s) = []
   \<and> snd (handleDrop [] s) = s\<lparr>isDragging := False\<rparr>"
  by (simp add: handleDrop_def handleFileUpload_start_def)

theorem drop_uploads_first_file_witness:
  "map body (fst (handleDrop [rock_file, \<lparr>fileName = ''second.png'', fileType = ''image/png''\<rparr>] initial))
     = [Some rock_file]"
  using drop_uploads_first_file [of rock_file "[\<lparr>fileName = ''second.png'', fileType = ''image/png''\<rparr>]" initial]
  by simp

text \<open>
  Claim C8. Whatever happened before, when a generation result with a payload is stored
  its validation is pending under a fresh timer id. Once a newer result has been stored,
  whatever happened in between and whatever happens afterwards, that id is not pending
  any more, the elapsing of that timeout changes nothing, and every timeout that is
  pending validates the payload of the result stored at that moment.
\<close>

theorem stale_validation_cancelled:
  assumes "settle ''3D generation failed'' fetched1 = Inr (Some r1)"
    and "model_data r1 = Some md1"
    and "settle ''3D generation failed'' fetched2 = Inr (Some r2)"
    and "s0 = run before initial"
    and "s1 = step (GenerateSettled fetched1) s0"
    and "s2 = step (GenerateSettled fetched2) (run between s1)"
    and "s3 = run after s2"
  shows "map_of (timers s1) (nextTimer s0) = Some md1
       \<and> nextTimer s0 \<notin> fst ` set (timers s3)
       \<and> step (TimerFires (nextTimer s0)) s3 = s3
       \<and> list_all (\<lambda>(t, md). map_option model_data (generate3DResult s3) = Some (Some md)) (timers s3)"
proof -
  have inv0: "timers_inv s0"
    unfolding assms(4) using timers_inv_initial by (rule timers_inv_run)
  have s1: "s1 = (setGenerate3DResult (Some r1) s0)\<lparr>isGenerating3D := False\<rparr>"
    by (simp add: assms(5) handleGenerate3D_resume_def assms(1))
  have pending: "timers s1 = [(nextTimer s0, md1)]" and next1: "nextTimer s1 = Suc (nextTimer s0)"
    by (simp_all add: s1 pending_after_store [OF inv0 assms(2)])
  have inv1: "timers_inv s1"
    unfolding assms(5) using inv0 by (rule timers_inv_step)
  have inv1': "timers_inv (run between s1)"
    using inv1 by (rule timers_inv_run)
  have "nextTimer s1 \<le> nextTimer (run between s1)"
    by (rule nextTimer_run)
  with next1 have "nextTimer s0 < nextTimer (run between s1)"
    by simp
  then have "retired (nextTimer s0) (setGenerate3DResult (Some r2) (run between s1))"
    by (rule retired_setGenerate3DResult)
  moreover have "s2 = (setGenerate3DResult (Some r2) (run between s1))\<lparr>isGenerating3D := False\<rparr>"
    by (simp add: assms(6) handleGenerate3D_resume_def assms(3))
  ultimately have "retired (nextTimer s0) s2"
    by (simp add: retired_def)
  then have ret3: "retired (nextTimer s0) s3"
    unfolding assms(7) by (rule retired_run)
  have inv2: "timers_inv s2"
    unfolding assms(6) using inv1' by (rule timers_inv_step)
  have inv3: "timers_inv s3"
    unfolding assms(7) using inv2 by (rule timers_inv_run)
  have gone: "nextTimer s0 \<notin> fst ` set (timers s3)"
    using inv3 ret3 by (rule retired_not_pending)
  then have noop: "step (TimerFires (nextTimer s0)) s3 = s3"
    by (simp add: timerFires_not_pending)
  have current: "list_all (\<lambda>(t, md). map_option model_data (generate3DResult s3) = Some (Some md)) (timers s3)"
    using inv3 by (auto simp: timers_inv_def list_all_iff)
  from pending gone noop current show ?thesis
    by simp
qed

theorem stale_validation_cancelled_witness:
  "settle ''3D generation failed'' (generated no_vertices_payload) = Inr (Some (generation no_vertices_payload))
   \<and> model_data (generation no_vertices_payload) = Some no_vertices_payload
   \<and> settle ''3D generation failed'' (generated triangle_payload) = Inr (Some (generation triangle_payload))
   \<and> nextTimer (run [Drop [rock_file], UploadSettled upload_ok, StartAnalysis] initial) = 0
   \<and> step (TimerFires 0)
        (run [TimerFires 1]
          (step (GenerateSettled (generated triangle_payload))
            (run [StartAnalysis]
              (step (GenerateSettled (generated no_vertices_payload))
                (run [Drop [rock_file], UploadSettled upload_ok, StartAnalysis] initial)))))
       = run [TimerFires 1]
          (step (GenerateSettled (generated triangle_payload))
            (run [StartAnalysis]
              (step (GenerateSettled (generated no_vertices_payload))
                (run [Drop [rock_file], UploadSettled upload_ok, StartAnalysis] initial))))"
proof -
  have a: "settle ''3D generation failed'' (generated no_vertices_payload) = Inr (Some (generation no_vertices_payload))"
    and b: "model_data (generation no_vertices_payload) = Some no_vertices_payload"
    and c: "settle ''3D generation failed'' (generated triangle_payload) = Inr (Some (generation triangle_payload))"
    by (simp_all add: settle_def generated_def ok_def generation_def)
  have n: "nextTimer (run [Drop [rock_file], UploadSettled upload_ok, StartAnalysis] initial) = 0"
    by (simp add: handlers inputs)
  from stale_validation_cancelled [where after = "[TimerFires 1]" and between = "[StartAnalysis]"
      and before = "[Drop [rock_file], UploadSettled upload_ok, StartAnalysis]",
      OF a b c refl refl refl refl]
  have "step (TimerFires (nextTimer (run [Drop [rock_file], UploadSettled upload_ok, StartAnalysis] initial)))
        (run [TimerFires 1]
          (step (GenerateSettled (generated triangle_payload))
            (run [StartAnalysis]
              (step (GenerateSettled (generated no_vertices_payload))
                (run [Drop [rock_file], UploadSettled upload_ok, StartAnalysis] initial)))))
       = run [TimerFires 1]
          (step (GenerateSettled (generated triangle_payload))
            (run [StartAnalysis]
              (step (GenerateSettled (generated no_vertices_payload))
                (run [Drop [rock_file], UploadSettled upload_ok, StartAnalysis] initial))))"
    by blast
  with a b c n show ?thesis
    by (simp only: simp_thms)
qed

text \<open>
  Claim C9. When the request of a handler has settled, in whatever way (a result, a
  non-2xx response, a rejected \<open>fetch\<close>, a body that does not parse) and in whatever
  state the component is by then, the continuation of the upload handler leaves
  \<open>isUploading\<close> false and the continuation of the generation handler leaves
  \<open>isGenerating3D\<close> false.
\<close>

theorem in_progress_flags_cleared:
  "\<not> isUploading (handleFileUpload_resume fetched s)
   \<and> \<not> isGenerating3D (handleGenerate3D_resume fetched3D s)
   \<and> \<not> isUploading (run [Drop (file # others), UploadSettled fetched] s)
   \<and> \<not> isGenerating3D (run [StartAnalysis, GenerateSettled fetched3D] s)"
proof -
  have up: "\<not> isUploading (handleFileUpload_resume fetched s')" for s'
    by (simp add: handleFileUpload_resume_def Let_def split: sum.splits)
  have gen: "\<not> isGenerating3D (handleGenerate3D_resume fetched3D s')" for s'
    by (simp add: handleGenerate3D_resume_def Let_def split: sum.splits)
  have "isUploading (commit s') = isUploading s'" and "isGenerating3D (commit s') = isGenerating3D s'" for s'
    by (simp_all add: commit_def split: option.splits)
  with up gen show ?thesis
    by simp
qed

theorem in_progress_flags_cleared_witness:
  "uploadResult (run [Drop [rock_file], UploadSettled upload_ok] initial) \<noteq> None
   \<and> isGenerating3D (run [Drop [rock_file], UploadSettled upload_ok, StartAnalysis] initial)
   \<and> \<not> isGenerating3D (run [StartAnalysis, GenerateSettled (Rejected (Error ''Failed to fetch''))]
                           (run [Drop [rock_file], UploadSettled upload_ok] initial))"
proof -
  have a: "uploadResult (run [Drop [rock_file], UploadSettled upload_ok] initial) \<noteq> None"
    and b: "isGenerating3D (run [Drop [rock_file], UploadSettled upload_ok, StartAnalysis] initial)"
    by (simp_all add: handlers inputs)
  from in_progress_flags_cleared [where s = "run [Drop [rock_file], UploadSettled upload_ok] initial"
      and fetched3D = "Rejected (Error ''Failed to fetch'')"] a b
  show ?thesis by simp
qed

text \<open>
  Claim C10. With no upload result stored, the generation handler sends no request and
  returns the state unchanged.
\<close>

theorem generate_without_upload_noop:
  "uploadResult s = None \<Longrightarrow> handleGenerate3D_start s = ([], s) \<and> step StartAnalysis s = s"
  by (simp add: handleGenerate3D_start_def)

theorem generate_without_upload_noop_witness:
  "uploadResult initial = None \<and> handleGenerate3D_start initial = ([], initial)
   \<and> step StartAnalysis initial = initial"
proof -
  have "uploadResult initial = None" by (simp add: initial_def)
  with generate_without_upload_noop [of initial] show ?thesis by simp
qed

end
